theory Spec2Isabelle
  imports Main "HOL-Library.Monad_Syntax"
begin

section \<open>Identifier types and the expression tree\<close>

text \<open>
  Modelled from the spec: the identifier types of \<^verbatim>\<open>catalog/catalog_defs.h\<close>, a header
  that \<^verbatim>\<open>seq_scan_plan_node.h\<close> only includes. They are opaque small values with equality;
  nothing in \<^verbatim>\<open>seq_scan_plan_node.h\<close> computes with them, so natural numbers stand for
  them.
\<close>

type_synonym col_oid_t = nat
type_synonym table_oid_t = nat
type_synonym db_oid_t = nat
type_synonym namespace_oid_t = nat

text \<open>
  Modelled from the spec: \<^verbatim>\<open>parser::ExpressionType\<close>, declared in the headers of the
  parser. The scan node tests the discriminant against \<^verbatim>\<open>COLUMN_VALUE\<close> only; every other
  discriminant is kept by its number.
\<close>

datatype ExpressionType = COLUMN_VALUE | OTHER_EXPRESSION nat

text \<open>
  Modelled from the spec: \<^verbatim>\<open>parser::AbstractExpression\<close> and
  \<^verbatim>\<open>parser::ColumnValueExpression\<close>, declared in the headers of the parser. An expression
  exposes \<^verbatim>\<open>GetExpressionType()\<close>,
  \<^verbatim>\<open>GetChildren()\<close> and, when the object is a \<^verbatim>\<open>ColumnValueExpression\<close>,
  \<^verbatim>\<open>GetColumnOid()\<close>. A pointer to an expression is an \<open>option\<close>: \<open>None\<close> is the null
  pointer. \<open>GetColumnOid\<close> is \<open>Some c\<close> exactly when the object's class is
  \<^verbatim>\<open>ColumnValueExpression\<close> with column oid \<open>c\<close>.
\<close>

datatype AbstractExpression = AbstractExpression
  (GetExpressionType: ExpressionType)
  (GetChildren: "AbstractExpression option list")
  (GetColumnOid: "col_oid_t option")

text \<open>
  The source dereferences pointers without a check and downcasts with \<^verbatim>\<open>static_cast\<close>.
  Both are undefined behaviour when the pointer is null, or when the object is not of the
  class cast to; the model makes each an outcome of its own.
\<close>

datatype undefined_behaviour = NullPointerDereference | InvalidStaticCast

text \<open>
  \<^verbatim>\<open>
  void CollectOids(std::vector<catalog::col_oid_t> *result,
                   const parser::AbstractExpression *expr) const {
    if (expr->GetExpressionType() == parser::ExpressionType::COLUMN_VALUE) {
      auto column_val = static_cast<const parser::ColumnValueExpression *>(expr);
      result->emplace_back(column_val->GetColumnOid());
    } else {
      for (const auto &child : expr->GetChildren()) {
        CollectOids(result, child.Get());
      }
    }
  }
  \<close>
  The vector behind \<^verbatim>\<open>result\<close> is passed in and returned; \<open>CollectOids_children\<close> is the
  \<^verbatim>\<open>for\<close> loop over the children.
\<close>

fun CollectOids ::
    "col_oid_t list \<Rightarrow> AbstractExpression option \<Rightarrow> undefined_behaviour + col_oid_t list"
  and CollectOids_children ::
    "col_oid_t list \<Rightarrow> AbstractExpression option list \<Rightarrow> undefined_behaviour + col_oid_t list"
where
  "CollectOids result None = Inl NullPointerDereference"
| "CollectOids result (Some (AbstractExpression ty children oid)) =
     (if ty = COLUMN_VALUE then
        (case oid of
           None \<Rightarrow> Inl InvalidStaticCast
         | Some c \<Rightarrow> Inr (result @ [c]))
      else CollectOids_children result children)"
| "CollectOids_children result [] = Inr result"
| "CollectOids_children result (child # rest) =
     (case CollectOids result child of
        Inl ub \<Rightarrow> Inl ub
      | Inr result' \<Rightarrow> CollectOids_children result' rest)"

section \<open>Output schema and plan nodes\<close>

text \<open>
  Modelled from the spec: \<^verbatim>\<open>OutputSchema\<close> and its columns, declared in a header that
  \<^verbatim>\<open>seq_scan_plan_node.h\<close> only includes. An output schema is an ordered sequence of
  columns, and each column exposes the (externally owned) expression that derives it
  through \<^verbatim>\<open>GetExpr()\<close>, a pointer.
\<close>

datatype Column = Column (GetExpr: "AbstractExpression option")

datatype OutputSchema = OutputSchema (GetColumns: "Column list")

text \<open>
  Modelled from the spec: the base classes \<^verbatim>\<open>AbstractPlanNode\<close> and
  \<^verbatim>\<open>AbstractScanPlanNode\<close>, declared in \<^verbatim>\<open>abstract_plan_node.h\<close> and
  \<^verbatim>\<open>abstract_scan_plan_node.h\<close>. Their fields are the arguments that the constructor of
  \<^verbatim>\<open>SeqScanPlanNode\<close> hands to its base class: the owned child plan nodes, the owned output
  schema (a smart pointer, null when never set), the predicate pointer, the for-update flag
  and the database and namespace identifiers. Child plan nodes may be of any variant; their
  type is the parameter \<open>'p\<close>.
\<close>

record 'p AbstractPlanNode =
  plan_children :: "'p list"
  output_schema :: "OutputSchema option"

record 'p AbstractScanPlanNode = "'p AbstractPlanNode" +
  scan_predicate :: "AbstractExpression option"
  is_for_update :: bool
  database_oid :: db_oid_t
  namespace_oid :: namespace_oid_t

text \<open>The two fields that \<^verbatim>\<open>SeqScanPlanNode\<close> adds: \<^verbatim>\<open>column_oids_\<close> and \<^verbatim>\<open>table_oid_\<close>.\<close>

record 'p SeqScanPlanNode = "'p AbstractScanPlanNode" +
  column_oids :: "col_oid_t list"
  table_oid :: table_oid_t

datatype PlanNodeType = SEQSCAN | OTHER_PLAN_NODE nat

definition GetPlanNodeType :: "'p SeqScanPlanNode \<Rightarrow> PlanNodeType" where
  "GetPlanNodeType this = SEQSCAN"

definition GetColumnIds :: "'p SeqScanPlanNode \<Rightarrow> col_oid_t list" where
  "GetColumnIds this = column_oids this"

definition GetTableOid :: "'p SeqScanPlanNode \<Rightarrow> table_oid_t" where
  "GetTableOid this = table_oid this"

definition GetScanPredicate :: "'p SeqScanPlanNode \<Rightarrow> AbstractExpression option" where
  "GetScanPredicate this = scan_predicate this"

definition GetOutputSchema :: "'p SeqScanPlanNode \<Rightarrow> OutputSchema option" where
  "GetOutputSchema this = output_schema this"

section \<open>The builder\<close>

text \<open>
  The builder holds the inherited state of \<^verbatim>\<open>AbstractScanPlanNode::Builder\<close> and its own
  \<^verbatim>\<open>column_oids_\<close> and \<^verbatim>\<open>table_oid_\<close>.
\<close>

record 'p AbstractScanPlanNode_Builder =
  Builder_children :: "'p list"
  Builder_output_schema :: "OutputSchema option"
  Builder_scan_predicate :: "AbstractExpression option"
  Builder_is_for_update :: bool
  Builder_database_oid :: db_oid_t
  Builder_namespace_oid :: namespace_oid_t

record 'p Builder = "'p AbstractScanPlanNode_Builder" +
  Builder_column_oids :: "col_oid_t list"
  Builder_table_oid :: table_oid_t

text \<open>
  \<^verbatim>\<open>Builder() = default\<close>: the inherited part is whatever the base builder constructs
  (\<open>base\<close>), the vector starts empty, and \<^verbatim>\<open>table_oid_\<close>, which has no initialiser, holds
  what a default-constructed \<^verbatim>\<open>catalog::table_oid_t\<close> holds (\<open>default_table_oid\<close>, a
  parameter: the type is declared in \<^verbatim>\<open>catalog/catalog_defs.h\<close>).
\<close>

definition Builder_default ::
    "'p AbstractScanPlanNode_Builder \<Rightarrow> table_oid_t \<Rightarrow> 'p Builder" where
  "Builder_default base default_table_oid =
     \<lparr>Builder_children = Builder_children base,
      Builder_output_schema = Builder_output_schema base,
      Builder_scan_predicate = Builder_scan_predicate base,
      Builder_is_for_update = Builder_is_for_update base,
      Builder_database_oid = Builder_database_oid base,
      Builder_namespace_oid = Builder_namespace_oid base,
      Builder_column_oids = [],
      Builder_table_oid = default_table_oid\<rparr>"

definition SetTableOid :: "table_oid_t \<Rightarrow> 'p Builder \<Rightarrow> 'p Builder" where
  "SetTableOid oid b = b\<lparr>Builder_table_oid := oid\<rparr>"

definition SetColumnOids :: "col_oid_t list \<Rightarrow> 'p Builder \<Rightarrow> 'p Builder" where
  "SetColumnOids column_oids' b = b\<lparr>Builder_column_oids := column_oids'\<rparr>"

text \<open>
  The private constructor: the first six arguments (in the order children, output schema,
  predicate, for-update flag, database oid, namespace oid) initialise the base class, the
  other two the fields of the node.
\<close>

definition new_SeqScanPlanNode ::
    "'p list \<Rightarrow> OutputSchema option \<Rightarrow> AbstractExpression option \<Rightarrow> col_oid_t list \<Rightarrow> bool \<Rightarrow>
     db_oid_t \<Rightarrow> namespace_oid_t \<Rightarrow> table_oid_t \<Rightarrow> 'p SeqScanPlanNode" where
  "new_SeqScanPlanNode children' output_schema' predicate column_oids' is_for_update'
       database_oid' namespace_oid' table_oid' =
     \<lparr>plan_children = children',
      output_schema = output_schema',
      scan_predicate = predicate,
      is_for_update = is_for_update',
      database_oid = database_oid',
      namespace_oid = namespace_oid',
      column_oids = column_oids',
      table_oid = table_oid'\<rparr>"

text \<open>
  \<^verbatim>\<open>
  std::unique_ptr<SeqScanPlanNode> Build() {
    return std::unique_ptr<SeqScanPlanNode>(
        new SeqScanPlanNode(std::move(children_), std::move(output_schema_), scan_predicate_,
                            std::move(column_oids_), is_for_update_, database_oid_,
                            namespace_oid_, table_oid_));
  }
  \<close>
  No field is inspected before the constructor runs, so there is no failing branch. The
  builder is single-use; its state after the moves is not modelled.
\<close>

definition Build :: "'p Builder \<Rightarrow> 'p SeqScanPlanNode" where
  "Build b =
     new_SeqScanPlanNode (Builder_children b) (Builder_output_schema b)
       (Builder_scan_predicate b) (Builder_column_oids b) (Builder_is_for_update b)
       (Builder_database_oid b) (Builder_namespace_oid b) (Builder_table_oid b)"

section \<open>Collecting the input column oids\<close>

text \<open>The \<^verbatim>\<open>for\<close> loop of \<^verbatim>\<open>CollectInputOids\<close> over the columns of the output schema.\<close>

fun CollectOids_columns ::
    "col_oid_t list \<Rightarrow> Column list \<Rightarrow> undefined_behaviour + col_oid_t list" where
  "CollectOids_columns result [] = Inr result"
| "CollectOids_columns result (col # rest) =
     (case CollectOids result (GetExpr col) of
        Inl ub \<Rightarrow> Inl ub
      | Inr result' \<Rightarrow> CollectOids_columns result' rest)"

text \<open>
  The memory a call of \<^verbatim>\<open>CollectInputOids\<close> works on: the node it is called on (with the
  expressions it refers to) and the local vector \<^verbatim>\<open>result\<close>.
\<close>

record 'p CollectInputOids_state =
  this_node :: "'p SeqScanPlanNode"
  result_vector :: "col_oid_t list"

text \<open>
  \<^verbatim>\<open>
  std::vector<catalog::col_oid_t> CollectInputOids() const {
    std::vector<catalog::col_oid_t> result;
    if (GetScanPredicate() != nullptr) CollectOids(&result, GetScanPredicate().Get());
    for (const auto &col : GetOutputSchema()->GetColumns()) {
      CollectOids(&result, col.GetExpr().Get());
    }
    std::unordered_set<catalog::col_oid_t> s(result.begin(), result.end());
    result.assign(s.begin(), s.end());
    return result;
  }
  \<close>
  The order in which a \<^verbatim>\<open>std::unordered_set\<close> is iterated is left open by the standard
  library, so it is the parameter \<open>hash_order\<close>: \<open>hash_order xs\<close> is the sequence in which the
  set built from the range \<open>xs\<close> is traversed. \<open>CollectInputOids_run\<close> gives the memory at
  the \<^verbatim>\<open>return\<close>, \<open>CollectInputOids\<close> the vector returned.
\<close>

definition CollectInputOids_run ::
    "(col_oid_t list \<Rightarrow> col_oid_t list) \<Rightarrow> 'p SeqScanPlanNode \<Rightarrow>
     undefined_behaviour + 'p CollectInputOids_state" where
  "CollectInputOids_run hash_order this =
     (let s0 = \<lparr>this_node = this, result_vector = []\<rparr> in
      case (if GetScanPredicate (this_node s0) \<noteq> None
            then (case CollectOids (result_vector s0) (GetScanPredicate (this_node s0)) of
                    Inl ub \<Rightarrow> Inl ub
                  | Inr result' \<Rightarrow> Inr (s0\<lparr>result_vector := result'\<rparr>))
            else Inr s0) of
        Inl ub \<Rightarrow> Inl ub
      | Inr s1 \<Rightarrow>
          (case GetOutputSchema (this_node s1) of
             None \<Rightarrow> Inl NullPointerDereference
           | Some schema \<Rightarrow>
               (case CollectOids_columns (result_vector s1) (GetColumns schema) of
                  Inl ub \<Rightarrow> Inl ub
                | Inr result' \<Rightarrow>
                    (let s2 = s1\<lparr>result_vector := result'\<rparr>
                     in Inr (s2\<lparr>result_vector := hash_order (result_vector s2)\<rparr>)))))"

definition CollectInputOids ::
    "(col_oid_t list \<Rightarrow> col_oid_t list) \<Rightarrow> 'p SeqScanPlanNode \<Rightarrow>
     undefined_behaviour + col_oid_t list" where
  "CollectInputOids hash_order this =
     (case CollectInputOids_run hash_order this of
        Inl ub \<Rightarrow> Inl ub
      | Inr s \<Rightarrow> Inr (result_vector s))"

text \<open>
  What the standard library promises of the traversal: every element of the range is met,
  nothing else is, and no element is met twice.
\<close>

definition unordered_set_traversal :: "(col_oid_t list \<Rightarrow> col_oid_t list) \<Rightarrow> bool" where
  "unordered_set_traversal hash_order \<longleftrightarrow>
     (\<forall>xs. set (hash_order xs) = set xs \<and> distinct (hash_order xs))"

section \<open>Referenced column identifiers and well-formed expression trees\<close>

text \<open>
  The column identifiers referenced by an expression tree: those carried by the
  column-value expressions anywhere in it.
\<close>

fun referenced_oids :: "AbstractExpression option \<Rightarrow> col_oid_t set"
  and referenced_oids_children :: "AbstractExpression option list \<Rightarrow> col_oid_t set"
where
  "referenced_oids None = {}"
| "referenced_oids (Some (AbstractExpression ty children oid)) =
     (if ty = COLUMN_VALUE then set_option oid else {}) \<union> referenced_oids_children children"
| "referenced_oids_children [] = {}"
| "referenced_oids_children (child # rest) =
     referenced_oids child \<union> referenced_oids_children rest"

text \<open>
  The identifiers carried by the column-value expressions that have no column-value
  expression above them.
\<close>

fun exposed_oids :: "AbstractExpression option \<Rightarrow> col_oid_t set"
  and exposed_oids_children :: "AbstractExpression option list \<Rightarrow> col_oid_t set"
where
  "exposed_oids None = {}"
| "exposed_oids (Some (AbstractExpression ty children oid)) =
     (if ty = COLUMN_VALUE then set_option oid else exposed_oids_children children)"
| "exposed_oids_children [] = {}"
| "exposed_oids_children (child # rest) =
     exposed_oids child \<union> exposed_oids_children rest"

text \<open>
  A well-formed expression tree: no pointer in it is null, an expression whose discriminant
  is \<^verbatim>\<open>COLUMN_VALUE\<close> is a \<^verbatim>\<open>ColumnValueExpression\<close> object, and such an expression is a
  leaf.
\<close>

fun well_formed_expression :: "AbstractExpression option \<Rightarrow> bool"
  and well_formed_children :: "AbstractExpression option list \<Rightarrow> bool"
where
  "well_formed_expression None = False"
| "well_formed_expression (Some (AbstractExpression ty children oid)) =
     (if ty = COLUMN_VALUE then oid \<noteq> None \<and> children = []
      else well_formed_children children)"
| "well_formed_children [] = True"
| "well_formed_children (child # rest) =
     (well_formed_expression child \<and> well_formed_children rest)"

text \<open>
  A node whose expressions are well formed: the predicate, when there is one, and the
  expression of every column of the output schema, which is there.
\<close>

definition well_formed_node :: "'p SeqScanPlanNode \<Rightarrow> bool" where
  "well_formed_node this \<longleftrightarrow>
     (GetScanPredicate this \<noteq> None \<longrightarrow> well_formed_expression (GetScanPredicate this)) \<and>
     (case GetOutputSchema this of
        None \<Rightarrow> False
      | Some schema \<Rightarrow> list_all (\<lambda>col. well_formed_expression (GetExpr col)) (GetColumns schema))"

definition node_referenced_oids :: "'p SeqScanPlanNode \<Rightarrow> col_oid_t set" where
  "node_referenced_oids this =
     referenced_oids (GetScanPredicate this) \<union>
     (case GetOutputSchema this of
        None \<Rightarrow> {}
      | Some schema \<Rightarrow> (\<Union>col \<in> set (GetColumns schema). referenced_oids (GetExpr col)))"

definition node_exposed_oids :: "'p SeqScanPlanNode \<Rightarrow> col_oid_t set" where
  "node_exposed_oids this =
     exposed_oids (GetScanPredicate this) \<union>
     (case GetOutputSchema this of
        None \<Rightarrow> {}
      | Some schema \<Rightarrow> (\<Union>col \<in> set (GetColumns schema). exposed_oids (GetExpr col)))"

subsection \<open>Sample nodes\<close>

definition column_value :: "col_oid_t \<Rightarrow> AbstractExpression option" where
  "column_value c = Some (AbstractExpression COLUMN_VALUE [] (Some c))"

text \<open>
  Table 42; the predicate is a binary expression over the columns 2 and 5, the output
  schema has the columns 1 and 3.
\<close>

definition example_scan :: "unit SeqScanPlanNode" where
  "example_scan =
     new_SeqScanPlanNode []
       (Some (OutputSchema [Column (column_value 1), Column (column_value 3)]))
       (Some (AbstractExpression (OTHER_EXPRESSION 0) [column_value 2, column_value 5] None))
       [1, 3] False 0 0 42"

text \<open>No predicate, an output schema without columns, four stored column oids.\<close>

definition empty_scan :: "unit SeqScanPlanNode" where
  "empty_scan = new_SeqScanPlanNode [] (Some (OutputSchema [])) None [1, 2, 2, 3] False 0 0 42"

text \<open>The predicate is a column-value expression for column 7 that has a child for column 9.\<close>

definition nested_scan :: "unit SeqScanPlanNode" where
  "nested_scan =
     new_SeqScanPlanNode [] (Some (OutputSchema []))
       (Some (AbstractExpression COLUMN_VALUE [column_value 9] (Some 7)))
       [] False 0 0 42"

text \<open>The predicate and the only output column both reference column 2.\<close>

definition shared_column_scan :: "unit SeqScanPlanNode" where
  "shared_column_scan =
     new_SeqScanPlanNode [] (Some (OutputSchema [Column (column_value 2)]))
       (column_value 2) [2] False 0 0 42"

section \<open>Equality, hashing and serialisation\<close>

text \<open>
  The header \<^verbatim>\<open>seq_scan_plan_node.h\<close> declares \<^verbatim>\<open>Hash\<close>, \<^verbatim>\<open>operator==\<close>, \<^verbatim>\<open>ToJson\<close> and
  \<^verbatim>\<open>FromJson\<close> and leaves their bodies to the implementation file. The definitions of this
  section follow the specification.
\<close>

text \<open>
  Modelled from the spec: the argument of \<^verbatim>\<open>operator==\<close>, a reference to a plan node of
  some variant (the class \<^verbatim>\<open>AbstractPlanNode\<close> is declared in
  \<^verbatim>\<open>abstract_plan_node.h\<close>). \<open>ref_type\<close> is the discriminant the object answers with. \<open>ref_node\<close> is what is read through the reference
  after the downcast to \<^verbatim>\<open>SeqScanPlanNode\<close>: the object itself when the discriminant is
  \<^verbatim>\<open>SEQSCAN\<close>, and for another variant the base, table and column fields it has.
\<close>

datatype 'p AbstractPlanNode_ref =
  AbstractPlanNode_ref (ref_type: PlanNodeType) (ref_node: "'p SeqScanPlanNode")

definition as_AbstractPlanNode :: "'p SeqScanPlanNode \<Rightarrow> 'p AbstractPlanNode_ref" where
  "as_AbstractPlanNode this = AbstractPlanNode_ref (GetPlanNodeType this) this"

text \<open>
  Modelled from the spec: \<^verbatim>\<open>AbstractPlanNode::operator==\<close>, of the base class, is structural
  equality of the base node: of the owned children and of the output schema.
\<close>

definition AbstractPlanNode_operator_eq ::
    "('p, 'a) AbstractPlanNode_scheme \<Rightarrow> ('p, 'b) AbstractPlanNode_scheme \<Rightarrow> bool" where
  "AbstractPlanNode_operator_eq this other \<longleftrightarrow>
     plan_children this = plan_children other \<and> output_schema this = output_schema other"

text \<open>
  Modelled from the spec: \<^verbatim>\<open>AbstractScanPlanNode::operator==\<close>, of the base class, combines
  base-node equality with the four fields of the scan level; the predicates are compared
  structurally, not by address.
\<close>

definition AbstractScanPlanNode_operator_eq ::
    "('p, 'a) AbstractScanPlanNode_scheme \<Rightarrow> ('p, 'b) AbstractScanPlanNode_scheme \<Rightarrow> bool" where
  "AbstractScanPlanNode_operator_eq this other \<longleftrightarrow>
     AbstractPlanNode_operator_eq this other \<and>
     scan_predicate this = scan_predicate other \<and>
     is_for_update this = is_for_update other \<and>
     database_oid this = database_oid other \<and>
     namespace_oid this = namespace_oid other"

text \<open>
  Modelled from the spec: the body of \<^verbatim>\<open>SeqScanPlanNode::operator==\<close>. It returns false
  immediately if the discriminant of the right-hand node differs from \<^verbatim>\<open>SEQSCAN\<close>;
  otherwise it combines the base scan-node equality with table-id equality and
  column-id-sequence equality.
\<close>

definition operator_eq :: "'p SeqScanPlanNode \<Rightarrow> 'p AbstractPlanNode_ref \<Rightarrow> bool" where
  "operator_eq this rhs =
     (if ref_type rhs \<noteq> SEQSCAN then False
      else (let other = ref_node rhs
            in AbstractScanPlanNode_operator_eq this other \<and>
               GetTableOid this = GetTableOid other \<and>
               GetColumnIds this = GetColumnIds other))"

text \<open>
  Modelled from the spec: the hash functions of the collaborators (\<^verbatim>\<open>common::HashUtil\<close>,
  the identifier types, the expression tree, the output schema, the child plan nodes), all
  declared in other headers. They are parameters; \<open>'h\<close> is the type of hash values.
\<close>

record ('p, 'h) HashUtil =
  CombineHashes :: "'h \<Rightarrow> 'h \<Rightarrow> 'h"
  Hash_oid :: "nat \<Rightarrow> 'h"
  Hash_oids :: "nat list \<Rightarrow> 'h"
  Hash_flag :: "bool \<Rightarrow> 'h"
  Hash_type :: "PlanNodeType \<Rightarrow> 'h"
  Hash_expression :: "AbstractExpression option \<Rightarrow> 'h"
  Hash_schema :: "OutputSchema option \<Rightarrow> 'h"
  Hash_plans :: "'p list \<Rightarrow> 'h"

text \<open>
  Modelled from the spec: \<^verbatim>\<open>AbstractPlanNode::Hash\<close>, of the base class, is a deterministic
  combined hash of the structurally relevant fields of the base node: the discriminant, the
  children and the output schema.
\<close>

definition AbstractPlanNode_Hash ::
    "('p, 'h) HashUtil \<Rightarrow> PlanNodeType \<Rightarrow> ('p, 'a) AbstractPlanNode_scheme \<Rightarrow> 'h" where
  "AbstractPlanNode_Hash H ty this =
     CombineHashes H
       (CombineHashes H (Hash_type H ty) (Hash_plans H (plan_children this)))
       (Hash_schema H (output_schema this))"

text \<open>
  Modelled from the spec: \<^verbatim>\<open>AbstractScanPlanNode::Hash\<close>, of the base class, combines the
  base-node hash with the four fields of the scan level.
\<close>

definition AbstractScanPlanNode_Hash ::
    "('p, 'h) HashUtil \<Rightarrow> PlanNodeType \<Rightarrow> ('p, 'a) AbstractScanPlanNode_scheme \<Rightarrow> 'h" where
  "AbstractScanPlanNode_Hash H ty this =
     CombineHashes H
       (CombineHashes H
          (CombineHashes H
             (CombineHashes H (AbstractPlanNode_Hash H ty this)
                (Hash_expression H (scan_predicate this)))
             (Hash_flag H (is_for_update this)))
          (Hash_oid H (database_oid this)))
       (Hash_oid H (namespace_oid this))"

text \<open>
  Modelled from the spec: the body of \<^verbatim>\<open>SeqScanPlanNode::Hash\<close>. It combines the base
  scan-node hash with the table id's hash and a hash over the column-id sequence in stored
  order.
\<close>

definition Hash :: "('p, 'h) HashUtil \<Rightarrow> 'p SeqScanPlanNode \<Rightarrow> 'h" where
  "Hash H this =
     CombineHashes H
       (CombineHashes H (AbstractScanPlanNode_Hash H (GetPlanNodeType this) this)
          (Hash_oid H (GetTableOid this)))
       (Hash_oids H (GetColumnIds this))"

text \<open>
  Modelled from the spec: the serialised form, a JSON-like document. The documents of
  expressions, of output schemas and of child plan nodes are written and read by
  collaborators outside this core: they are leaves of the document that hold the value
  serialised.
\<close>

datatype 'p json =
    JNull
  | JBool bool
  | JInt int
  | JString string
  | JArray "'p json list"
  | JObject "(string \<times> 'p json) list"
  | JExpression AbstractExpression
  | JOutputSchema OutputSchema
  | JPlanNode 'p

text \<open>
  Modelled from the spec: the body of \<^verbatim>\<open>SeqScanPlanNode::ToJson\<close>. It emits the
  discriminant, all base-class fields, the table id and the column-id sequence, under the
  keys of the serialised form; a null predicate is written as \<^verbatim>\<open>null\<close>. The serialised
  form has no shape for a node without an output schema; such a node gets \<^verbatim>\<open>null\<close> there,
  which \<open>FromJson\<close> does not accept.
\<close>

definition ToJson :: "'p SeqScanPlanNode \<Rightarrow> 'p json" where
  "ToJson this =
     JObject
       [(''type'', JString ''SEQSCAN''),
        (''children'', JArray (map JPlanNode (plan_children this))),
        (''output_schema'',
           (case GetOutputSchema this of None \<Rightarrow> JNull | Some schema \<Rightarrow> JOutputSchema schema)),
        (''predicate'',
           (case GetScanPredicate this of None \<Rightarrow> JNull | Some e \<Rightarrow> JExpression e)),
        (''is_for_update'', JBool (is_for_update this)),
        (''database_oid'', JInt (int (database_oid this))),
        (''namespace_oid'', JInt (int (namespace_oid this))),
        (''table_oid'', JInt (int (GetTableOid this))),
        (''column_oids'', JArray (map (\<lambda>oid. JInt (int oid)) (GetColumnIds this)))]"

datatype json_error = MalformedPlan

text \<open>Modelled from the spec: reading a field of the shape that the serialised form gives it.\<close>

fun json_oid :: "'p json \<Rightarrow> nat option" where
  "json_oid (JInt i) = (if 0 \<le> i then Some (nat i) else None)"
| "json_oid _ = None"

fun json_flag :: "'p json \<Rightarrow> bool option" where
  "json_flag (JBool b) = Some b"
| "json_flag _ = None"

fun json_plan :: "'p json \<Rightarrow> 'p option" where
  "json_plan (JPlanNode p) = Some p"
| "json_plan _ = None"

fun json_schema :: "'p json \<Rightarrow> OutputSchema option" where
  "json_schema (JOutputSchema schema) = Some schema"
| "json_schema _ = None"

fun json_predicate :: "'p json \<Rightarrow> AbstractExpression option option" where
  "json_predicate JNull = Some None"
| "json_predicate (JExpression e) = Some (Some e)"
| "json_predicate _ = None"

fun json_array :: "('p json \<Rightarrow> 'a option) \<Rightarrow> 'p json \<Rightarrow> 'a list option" where
  "json_array element (JArray js) = those (map element js)"
| "json_array element _ = None"

definition json_field ::
    "(string \<times> 'p json) list \<Rightarrow> string \<Rightarrow> ('p json \<Rightarrow> 'a option) \<Rightarrow> 'a option" where
  "json_field members key shape = Option.bind (map_of members key) shape"

text \<open>
  Modelled from the spec: the body of \<^verbatim>\<open>SeqScanPlanNode::FromJson\<close>. It populates a
  default-constructed instance in place and returns the freshly allocated expressions (the
  predicate and the expressions of the output columns). It fails with \<^verbatim>\<open>MalformedPlan\<close>
  when the discriminant is not that of the variant, or when a required field is missing or
  has the wrong shape.
\<close>

definition FromJson ::
    "'p SeqScanPlanNode \<Rightarrow> 'p json \<Rightarrow>
     json_error + ('p SeqScanPlanNode \<times> AbstractExpression list)" where
  "FromJson this j =
     (case j of
        JObject members \<Rightarrow>
          (if map_of members ''type'' \<noteq> Some (JString ''SEQSCAN'') then Inl MalformedPlan
           else
             (case
                do {
                  children' \<leftarrow> json_field members ''children'' (json_array json_plan);
                  schema \<leftarrow> json_field members ''output_schema'' json_schema;
                  predicate \<leftarrow> json_field members ''predicate'' json_predicate;
                  is_for_update' \<leftarrow> json_field members ''is_for_update'' json_flag;
                  database_oid' \<leftarrow> json_field members ''database_oid'' json_oid;
                  namespace_oid' \<leftarrow> json_field members ''namespace_oid'' json_oid;
                  table_oid' \<leftarrow> json_field members ''table_oid'' json_oid;
                  column_oids' \<leftarrow> json_field members ''column_oids'' (json_array json_oid);
                  Some
                    (this\<lparr>plan_children := children',
                          output_schema := Some schema,
                          scan_predicate := predicate,
                          is_for_update := is_for_update',
                          database_oid := database_oid',
                          namespace_oid := namespace_oid',
                          column_oids := column_oids',
                          table_oid := table_oid'\<rparr>,
                     (case predicate of None \<Rightarrow> [] | Some e \<Rightarrow> [e]) @
                     List.map_filter GetExpr (GetColumns schema))
                }
              of
                None \<Rightarrow> Inl MalformedPlan
              | Some populated \<Rightarrow> Inr populated))
      | _ \<Rightarrow> Inl MalformedPlan)"

subsection \<open>Sample values\<close>

text \<open>The node \<open>example_scan\<close>, built a second time, through the builder.\<close>

definition example_Builder :: "unit Builder" where
  "example_Builder =
     SetColumnOids [1, 3]
       (SetTableOid 42
          (Builder_default
             \<lparr>Builder_children = [],
              Builder_output_schema =
                Some (OutputSchema [Column (column_value 1), Column (column_value 3)]),
              Builder_scan_predicate =
                Some (AbstractExpression (OTHER_EXPRESSION 0)
                        [column_value 2, column_value 5] None),
              Builder_is_for_update = False,
              Builder_database_oid = 0,
              Builder_namespace_oid = 0\<rparr>
             0))"

definition example_scan_rebuilt :: "unit SeqScanPlanNode" where
  "example_scan_rebuilt = Build example_Builder"

definition example_HashUtil :: "(unit, nat) HashUtil" where
  "example_HashUtil =
     \<lparr>CombineHashes = (\<lambda>a b. 31 * a + b),
      Hash_oid = (\<lambda>oid. oid),
      Hash_oids = (\<lambda>oids. fold (\<lambda>oid h. 31 * h + oid) oids 7),
      Hash_flag = (\<lambda>b. if b then 1 else 0),
      Hash_type = (\<lambda>ty. case ty of SEQSCAN \<Rightarrow> 1 | OTHER_PLAN_NODE k \<Rightarrow> k + 2),
      Hash_expression = (\<lambda>e. case e of None \<Rightarrow> 0 | Some x \<Rightarrow> length (GetChildren x) + 1),
      Hash_schema = (\<lambda>schema. case schema of None \<Rightarrow> 0 | Some s \<Rightarrow> length (GetColumns s) + 1),
      Hash_plans = length\<rparr>"

section \<open>Properties of the walk\<close>

lemma CollectOids_exposed:
  "CollectOids result e = Inr xs \<Longrightarrow> \<exists>ys. xs = result @ ys \<and> set ys = exposed_oids e"
  "CollectOids_children result es = Inr xs \<Longrightarrow>
     \<exists>ys. xs = result @ ys \<and> set ys = exposed_oids_children es"
proof (induction result e and result es arbitrary: xs and xs
       rule: CollectOids_CollectOids_children.induct)
  case (1 result)
  then show ?case by simp
next
  case (2 result ty children oid)
  then show ?case by (auto split: if_splits option.splits)
next
  case (3 result)
  then show ?case by simp
next
  case (4 result child rest)
  from "4.prems" obtain mid where
    m: "CollectOids result child = Inr mid" and r: "CollectOids_children mid rest = Inr xs"
    by (auto split: sum.splits)
  from "4.IH"(1)[OF m] obtain ys where ys: "mid = result @ ys" "set ys = exposed_oids child"
    by blast
  from "4.IH"(2)[OF m r] obtain zs where
    zs: "xs = mid @ zs" "set zs = exposed_oids_children rest"
    by blast
  from ys zs have "xs = result @ (ys @ zs) \<and> set (ys @ zs) = exposed_oids_children (child # rest)"
    by simp
  then show ?case by blast
qed

lemma well_formed_returns:
  "well_formed_expression e \<Longrightarrow> \<exists>xs. CollectOids result e = Inr xs"
  "well_formed_children es \<Longrightarrow> \<exists>xs. CollectOids_children result es = Inr xs"
proof (induction result e and result es rule: CollectOids_CollectOids_children.induct)
  case (4 result child rest)
  then show ?case by (auto split: sum.splits)
qed auto

lemma well_formed_exposed:
  "well_formed_expression e \<Longrightarrow> exposed_oids e = referenced_oids e"
  "well_formed_children es \<Longrightarrow> exposed_oids_children es = referenced_oids_children es"
  by (induction e and es rule: well_formed_expression_well_formed_children.induct) auto

lemma CollectOids_columns_exposed:
  "CollectOids_columns result cols = Inr xs \<Longrightarrow>
     \<exists>ys. xs = result @ ys \<and> set ys = (\<Union>col \<in> set cols. exposed_oids (GetExpr col))"
proof (induction cols arbitrary: result xs)
  case Nil
  then show ?case by simp
next
  case (Cons col rest)
  from Cons.prems obtain mid where
    m: "CollectOids result (GetExpr col) = Inr mid" and r: "CollectOids_columns mid rest = Inr xs"
    by (auto split: sum.splits)
  from CollectOids_exposed(1)[OF m] obtain ys where
    ys: "mid = result @ ys" "set ys = exposed_oids (GetExpr col)"
    by blast
  from Cons.IH[OF r] obtain zs where
    zs: "xs = mid @ zs" "set zs = (\<Union>c \<in> set rest. exposed_oids (GetExpr c))"
    by blast
  from ys zs have
    "xs = result @ (ys @ zs) \<and>
     set (ys @ zs) = (\<Union>c \<in> set (col # rest). exposed_oids (GetExpr c))"
    by simp
  then show ?case by blast
qed

lemma CollectOids_columns_returns:
  "list_all (\<lambda>col. well_formed_expression (GetExpr col)) cols \<Longrightarrow>
     \<exists>xs. CollectOids_columns result cols = Inr xs"
proof (induction cols arbitrary: result)
  case Nil
  then show ?case by simp
next
  case (Cons col rest)
  from Cons.prems have "well_formed_expression (GetExpr col)"
    by simp
  from well_formed_returns(1)[OF this, of result] obtain mid where
    "CollectOids result (GetExpr col) = Inr mid"
    by blast
  with Cons show ?case by simp
qed

lemma columns_exposed_referenced:
  "list_all (\<lambda>col. well_formed_expression (GetExpr col)) cols \<Longrightarrow>
     (\<Union>col \<in> set cols. exposed_oids (GetExpr col)) =
     (\<Union>col \<in> set cols. referenced_oids (GetExpr col))"
  by (induction cols) (simp_all add: well_formed_exposed(1))

lemma CollectInputOids_run_Inr:
  assumes "CollectInputOids_run hash_order this = Inr s"
  shows "this_node s = this \<and>
         (\<exists>ys. result_vector s = hash_order ys \<and> set ys = node_exposed_oids this)"
proof (cases "GetScanPredicate this")
  case None
  with assms obtain schema xs where
    sc: "GetOutputSchema this = Some schema" and
    xs: "CollectOids_columns [] (GetColumns schema) = Inr xs" and
    s: "s = \<lparr>this_node = this, result_vector = hash_order xs\<rparr>"
    by (auto simp: CollectInputOids_run_def Let_def split: option.splits sum.splits)
  from CollectOids_columns_exposed[OF xs] None sc s show ?thesis
    by (auto simp: node_exposed_oids_def)
next
  case (Some e)
  with assms obtain schema mid xs where
    m: "CollectOids [] (Some e) = Inr mid" and
    sc: "GetOutputSchema this = Some schema" and
    xs: "CollectOids_columns mid (GetColumns schema) = Inr xs" and
    s: "s = \<lparr>this_node = this, result_vector = hash_order xs\<rparr>"
    by (auto simp: CollectInputOids_run_def Let_def split: option.splits sum.splits)
  from CollectOids_exposed(1)[OF m] have mid: "set mid = exposed_oids (Some e)"
    by auto
  from CollectOids_columns_exposed[OF xs] obtain zs where
    zs: "xs = mid @ zs" "set zs = (\<Union>col \<in> set (GetColumns schema). exposed_oids (GetExpr col))"
    by blast
  from mid zs have "set xs = node_exposed_oids this"
    using Some sc by (simp add: node_exposed_oids_def)
  with s show ?thesis by auto
qed

lemma CollectInputOids_run_returns:
  assumes "well_formed_node this"
  shows "\<exists>s. CollectInputOids_run hash_order this = Inr s"
proof -
  from assms obtain schema where
    sc: "GetOutputSchema this = Some schema" and
    cols: "list_all (\<lambda>col. well_formed_expression (GetExpr col)) (GetColumns schema)"
    by (auto simp: well_formed_node_def split: option.splits)
  have "\<exists>mid. (if GetScanPredicate this \<noteq> None
                then CollectOids [] (GetScanPredicate this) else Inr []) = Inr mid"
    using assms well_formed_returns(1)[of "GetScanPredicate this" "[]"]
    by (auto simp: well_formed_node_def)
  then obtain mid where
    m: "(if GetScanPredicate this \<noteq> None
         then CollectOids [] (GetScanPredicate this) else Inr []) = Inr mid"
    by blast
  from CollectOids_columns_returns[OF cols, of mid] obtain xs where
    xs: "CollectOids_columns mid (GetColumns schema) = Inr xs"
    by blast
  from m sc xs show ?thesis
    by (auto simp: CollectInputOids_run_def Let_def split: if_splits)
qed

lemma well_formed_node_exposed:
  "well_formed_node this \<Longrightarrow> node_exposed_oids this = node_referenced_oids this"
  by (cases "GetScanPredicate this")
     (auto simp: well_formed_node_def node_exposed_oids_def node_referenced_oids_def
        well_formed_exposed(1) columns_exposed_referenced split: option.splits)

lemma remdups_traversal: "unordered_set_traversal remdups"
  by (simp add: unordered_set_traversal_def)

lemma example_scan_well_formed: "well_formed_node example_scan"
  by (simp add: well_formed_node_def example_scan_def new_SeqScanPlanNode_def
      GetScanPredicate_def GetOutputSchema_def column_value_def)

lemma example_scan_referenced: "node_referenced_oids example_scan = {1, 2, 3, 5}"
  by (auto simp: node_referenced_oids_def example_scan_def new_SeqScanPlanNode_def
      GetScanPredicate_def GetOutputSchema_def column_value_def)

lemma hash_order_Nil: "unordered_set_traversal hash_order \<Longrightarrow> hash_order [] = []"
  using set_empty[of "hash_order []"] by (simp add: unordered_set_traversal_def)

lemma CollectInputOids_Inr_run:
  "CollectInputOids hash_order this = Inr xs \<longleftrightarrow>
     (\<exists>s. CollectInputOids_run hash_order this = Inr s \<and> result_vector s = xs)"
  by (auto simp: CollectInputOids_def split: sum.splits)

lemma CollectInputOids_Inl_run:
  "CollectInputOids hash_order this = Inl ub \<longleftrightarrow> CollectInputOids_run hash_order this = Inl ub"
  by (auto simp: CollectInputOids_def split: sum.splits)

lemma CollectInputOids_run_Inl_order:
  "CollectInputOids_run hash_order this = Inl ub \<Longrightarrow>
     CollectInputOids_run hash_order' this = Inl ub"
  by (auto simp: CollectInputOids_run_def Let_def split: if_splits option.splits sum.splits)

lemma CollectInputOids_run_Inr_order:
  "CollectInputOids_run hash_order this = Inr s \<Longrightarrow>
     \<exists>s'. CollectInputOids_run hash_order' this = Inr s'"
  by (auto simp: CollectInputOids_run_def Let_def split: if_splits option.splits sum.splits)

lemma CollectInputOids_exposed:
  assumes "unordered_set_traversal hash_order" and "CollectInputOids hash_order this = Inr xs"
  shows "set xs = node_exposed_oids this \<and> distinct xs"
proof -
  from assms(2) obtain s where
    s: "CollectInputOids_run hash_order this = Inr s" "result_vector s = xs"
    by (auto simp: CollectInputOids_Inr_run)
  from CollectInputOids_run_Inr[OF s(1)] obtain ys where
    "result_vector s = hash_order ys" "set ys = node_exposed_oids this"
    by blast
  with assms(1) s(2) show ?thesis
    by (auto simp: unordered_set_traversal_def)
qed

lemma nested_scan_result: "CollectInputOids remdups nested_scan = Inr [7]"
  by (simp add: CollectInputOids_def CollectInputOids_run_def nested_scan_def
      new_SeqScanPlanNode_def GetScanPredicate_def GetOutputSchema_def)

lemma nested_scan_exposed: "node_exposed_oids nested_scan = {7}"
  by (simp add: node_exposed_oids_def nested_scan_def new_SeqScanPlanNode_def
      GetScanPredicate_def GetOutputSchema_def)

lemma nested_scan_referenced: "node_referenced_oids nested_scan = {7, 9}"
  by (auto simp: node_referenced_oids_def nested_scan_def new_SeqScanPlanNode_def
      GetScanPredicate_def GetOutputSchema_def column_value_def)

lemma empty_scan_fields:
  "GetScanPredicate empty_scan = None"
  "GetOutputSchema empty_scan = Some (OutputSchema [])"
  "GetColumnIds empty_scan = [1, 2, 2, 3]"
  by (simp_all add: GetScanPredicate_def GetOutputSchema_def GetColumnIds_def empty_scan_def
      new_SeqScanPlanNode_def)

lemma shared_column_scan_result: "CollectInputOids remdups shared_column_scan = Inr [2]"
  by (simp add: CollectInputOids_def CollectInputOids_run_def shared_column_scan_def
      new_SeqScanPlanNode_def GetScanPredicate_def GetOutputSchema_def column_value_def)

section \<open>Properties of equality, hashing and serialisation\<close>

lemma those_map_json_plan: "those (map (json_plan \<circ> JPlanNode) ps) = Some ps"
  by (induction ps) simp_all

lemma those_map_json_oid:
  "those (map (json_oid \<circ> (\<lambda>oid. JInt (int oid))) oids) = Some oids"
  by (induction oids) simp_all

lemma example_scan_rebuilt_eq: "example_scan_rebuilt = example_scan"
  by (simp add: example_scan_rebuilt_def example_Builder_def example_scan_def Build_def
      SetColumnOids_def SetTableOid_def Builder_default_def new_SeqScanPlanNode_def)

lemma operator_eq_example: "operator_eq example_scan (as_AbstractPlanNode example_scan_rebuilt)"
  by (simp add: example_scan_rebuilt_eq operator_eq_def as_AbstractPlanNode_def
      GetPlanNodeType_def AbstractScanPlanNode_operator_eq_def AbstractPlanNode_operator_eq_def)

lemma example_scan_column_oids: "column_oids example_scan = [1, 3]"
  by (simp add: example_scan_def new_SeqScanPlanNode_def)

section \<open>The claims\<close>

text \<open>
  Claim C1. On a node whose predicate and output-schema column expressions are well-formed
  expression trees (no null pointer; an expression with the discriminant \<^verbatim>\<open>COLUMN_VALUE\<close>
  is a \<^verbatim>\<open>ColumnValueExpression\<close> and a leaf), \<^verbatim>\<open>CollectInputOids\<close> returns, and the vector
  it returns holds exactly the column identifiers carried by the column-value expressions of
  the predicate (when there is one) and of the expressions of the output columns, each
  identifier once. This holds for whatever order the hash set is traversed in.
\<close>

theorem CollectInputOids_referenced_set:
  assumes "unordered_set_traversal hash_order" and "well_formed_node this"
  shows "\<exists>xs. CollectInputOids hash_order this = Inr xs \<and>
              set xs = node_referenced_oids this \<and> distinct xs"
proof -
  from CollectInputOids_run_returns[OF assms(2)] obtain s where
    s: "CollectInputOids_run hash_order this = Inr s"
    by blast
  from CollectInputOids_run_Inr[OF s] obtain ys where
    ys: "result_vector s = hash_order ys" "set ys = node_exposed_oids this"
    by blast
  from assms(1) ys have "set (result_vector s) = node_exposed_oids this" "distinct (result_vector s)"
    by (simp_all add: unordered_set_traversal_def)
  with s well_formed_node_exposed[OF assms(2)] show ?thesis
    by (simp add: CollectInputOids_def)
qed

text \<open>
  The scenario of the specification: table 42, a predicate over the columns 2 and 5, output
  columns over 1 and 3; the result, as a set, is \<open>{1, 2, 3, 5}\<close>. And a node whose
  predicate and output column both reference column 2: the result holds 2 once.
\<close>

theorem CollectInputOids_referenced_set_witness:
  "unordered_set_traversal remdups \<and> well_formed_node example_scan \<and>
   GetTableOid example_scan = 42 \<and>
   (\<exists>xs. CollectInputOids remdups example_scan = Inr xs \<and> set xs = {1, 2, 3, 5} \<and> distinct xs) \<and>
   CollectInputOids remdups shared_column_scan = Inr [2]"
  using CollectInputOids_referenced_set[OF remdups_traversal example_scan_well_formed]
    remdups_traversal example_scan_well_formed example_scan_referenced shared_column_scan_result
  by (simp add: GetTableOid_def example_scan_def new_SeqScanPlanNode_def)

text \<open>
  Claim C2. Equality and hashing agree: if \<open>A == B\<close> holds for two sequential-scan nodes,
  then \<open>Hash(A) = Hash(B)\<close>, for any hash functions of the collaborators.
\<close>

theorem Hash_respects_operator_eq:
  assumes "operator_eq A (as_AbstractPlanNode B)"
  shows "Hash H A = Hash H B"
  using assms
  by (simp add: operator_eq_def as_AbstractPlanNode_def GetPlanNodeType_def Hash_def
      AbstractScanPlanNode_operator_eq_def AbstractPlanNode_operator_eq_def
      AbstractScanPlanNode_Hash_def AbstractPlanNode_Hash_def)

theorem Hash_respects_operator_eq_witness:
  "operator_eq example_scan (as_AbstractPlanNode example_scan_rebuilt) \<and>
   Hash example_HashUtil example_scan = Hash example_HashUtil example_scan_rebuilt"
  using Hash_respects_operator_eq[OF operator_eq_example, of example_HashUtil] operator_eq_example
  by simp

text \<open>
  Claim C3. Serialisation is lossless: for a node \<open>A\<close> built by the builder with its output
  schema set, \<^verbatim>\<open>FromJson\<close> applied to \<^verbatim>\<open>ToJson(A)\<close> does not fail and populates, from any
  instance, a node \<open>B\<close> with \<open>A == B\<close>.
\<close>

theorem FromJson_ToJson:
  assumes "A = Build b" and "Builder_output_schema b \<noteq> None"
  shows "\<exists>B exprs. FromJson fresh (ToJson A) = Inr (B, exprs) \<and>
                   operator_eq A (as_AbstractPlanNode B)"
proof -
  from assms obtain schema where s: "output_schema A = Some schema"
    by (auto simp: Build_def new_SeqScanPlanNode_def)
  show ?thesis
    by (cases "scan_predicate A")
       (simp_all add: s FromJson_def ToJson_def json_field_def GetOutputSchema_def
          GetScanPredicate_def GetTableOid_def GetColumnIds_def those_map_json_plan
          those_map_json_oid operator_eq_def as_AbstractPlanNode_def GetPlanNodeType_def
          AbstractScanPlanNode_operator_eq_def AbstractPlanNode_operator_eq_def)
qed

theorem FromJson_ToJson_witness:
  "example_scan_rebuilt = Build example_Builder \<and>
   Builder_output_schema example_Builder \<noteq> None \<and>
   (\<exists>B exprs. FromJson empty_scan (ToJson example_scan_rebuilt) = Inr (B, exprs) \<and>
              operator_eq example_scan_rebuilt (as_AbstractPlanNode B))"
proof -
  have a: "example_scan_rebuilt = Build example_Builder"
    by (simp add: example_scan_rebuilt_def)
  have b: "Builder_output_schema example_Builder \<noteq> None"
    by (simp add: example_Builder_def SetColumnOids_def SetTableOid_def Builder_default_def)
  from FromJson_ToJson[OF a b, of empty_scan] a b show ?thesis
    by blast
qed

text \<open>
  Claim C4. \<^verbatim>\<open>operator==\<close> has a boolean answer for every right-hand node. When the
  discriminant of the right-hand node is not \<^verbatim>\<open>SEQSCAN\<close> the answer is false; otherwise it
  is the conjunction of the base scan-node equality, the equality of the table ids, and the
  equality of the stored column-id sequences, element by element and in order.
\<close>

theorem operator_eq_total:
  "(ref_type rhs \<noteq> SEQSCAN \<longrightarrow> operator_eq this rhs = False) \<and>
   (ref_type rhs = SEQSCAN \<longrightarrow>
      operator_eq this rhs =
        (AbstractScanPlanNode_operator_eq this (ref_node rhs) \<and>
         GetTableOid this = GetTableOid (ref_node rhs) \<and>
         list_all2 (=) (GetColumnIds this) (GetColumnIds (ref_node rhs))))"
  by (simp add: operator_eq_def Let_def list.rel_eq)

theorem operator_eq_total_witness:
  "ref_type (AbstractPlanNode_ref (OTHER_PLAN_NODE 1) example_scan) \<noteq> SEQSCAN \<and>
   operator_eq example_scan (AbstractPlanNode_ref (OTHER_PLAN_NODE 1) example_scan) = False \<and>
   ref_type (as_AbstractPlanNode example_scan) = SEQSCAN \<and>
   operator_eq example_scan (as_AbstractPlanNode example_scan) = True \<and>
   operator_eq example_scan (as_AbstractPlanNode (example_scan\<lparr>column_oids := [3, 1]\<rparr>)) = False"
proof -
  have a: "operator_eq example_scan (AbstractPlanNode_ref (OTHER_PLAN_NODE 1) example_scan) = False"
    using operator_eq_total[of "AbstractPlanNode_ref (OTHER_PLAN_NODE 1) example_scan" example_scan]
    by simp
  have b: "operator_eq example_scan (as_AbstractPlanNode example_scan) = True"
    using operator_eq_total[of "as_AbstractPlanNode example_scan" example_scan]
    by (simp add: as_AbstractPlanNode_def GetPlanNodeType_def list.rel_eq
        AbstractScanPlanNode_operator_eq_def AbstractPlanNode_operator_eq_def)
  have c: "operator_eq example_scan (as_AbstractPlanNode (example_scan\<lparr>column_oids := [3, 1]\<rparr>)) =
             False"
    using operator_eq_total
      [of "as_AbstractPlanNode (example_scan\<lparr>column_oids := [3, 1]\<rparr>)" example_scan]
    by (simp add: as_AbstractPlanNode_def GetPlanNodeType_def example_scan_column_oids
        GetColumnIds_def)
  from a b c show ?thesis
    by (simp add: as_AbstractPlanNode_def GetPlanNodeType_def)
qed

text \<open>
  Claim C5. A node built after \<^verbatim>\<open>SetColumnOids(v)\<close> stores \<open>v\<close> as it is:
  \<^verbatim>\<open>GetColumnIds()\<close> is \<open>v\<close>, element for element and in order, duplicates included, as
  for \<open>[1, 2, 2, 3]\<close>.
\<close>

theorem Build_keeps_column_oids:
  "GetColumnIds (Build (SetColumnOids v b)) = v \<and>
   GetColumnIds (Build (SetTableOid t (SetColumnOids v b))) = v \<and>
   GetColumnIds (Build (SetColumnOids [1, 2, 2, 3] b)) = [1, 2, 2, 3]"
  by (simp add: GetColumnIds_def Build_def SetColumnOids_def SetTableOid_def
      new_SeqScanPlanNode_def)

text \<open>
  Claim C6. On a node without a scan predicate whose output schema has no column,
  \<^verbatim>\<open>CollectInputOids\<close> returns the empty vector.
\<close>

theorem CollectInputOids_empty:
  assumes "unordered_set_traversal hash_order"
    and "GetScanPredicate this = None"
    and "GetOutputSchema this = Some schema" and "GetColumns schema = []"
  shows "CollectInputOids hash_order this = Inr []"
  using assms
  by (simp add: CollectInputOids_def CollectInputOids_run_def hash_order_Nil)

theorem CollectInputOids_empty_witness:
  "unordered_set_traversal remdups \<and> GetScanPredicate empty_scan = None \<and>
   GetOutputSchema empty_scan = Some (OutputSchema []) \<and> GetColumns (OutputSchema []) = [] \<and>
   CollectInputOids remdups empty_scan = Inr []"
proof -
  have c: "GetColumns (OutputSchema []) = []"
    by simp
  from CollectInputOids_empty[OF remdups_traversal empty_scan_fields(1,2) c]
    remdups_traversal empty_scan_fields(1,2) c
  show ?thesis by simp
qed

text \<open>
  Claim C7. \<^verbatim>\<open>Build()\<close> checks no field. Without \<^verbatim>\<open>SetTableOid\<close> the node's table id is
  the one of a default-constructed builder, without \<^verbatim>\<open>SetColumnOids\<close> its column-oid list
  is empty; \<open>Build\<close> has no failing outcome.
\<close>

theorem Build_without_setters:
  "GetTableOid (Build (SetColumnOids v (Builder_default base default_table_oid))) =
     default_table_oid \<and>
   GetColumnIds (Build (SetTableOid t (Builder_default base default_table_oid))) = [] \<and>
   GetTableOid (Build (Builder_default base default_table_oid)) = default_table_oid \<and>
   GetColumnIds (Build (Builder_default base default_table_oid)) = []"
  by (simp add: GetColumnIds_def GetTableOid_def Build_def SetColumnOids_def SetTableOid_def
      new_SeqScanPlanNode_def Builder_default_def)

text \<open>
  Claim C8. \<^verbatim>\<open>CollectInputOids\<close> is pure and deterministic. When a call returns, the
  node in memory (and with it every expression it refers to) is the node the call started
  on, and a second call on it returns the same identifiers as a set, whatever order either
  hash set is traversed in. When a call runs into undefined behaviour, so does every other
  call on the same node, at the same place.
\<close>

theorem CollectInputOids_pure_deterministic:
  assumes "unordered_set_traversal hash_order" and "unordered_set_traversal hash_order'"
  shows "case CollectInputOids_run hash_order this of
           Inl ub \<Rightarrow> CollectInputOids hash_order' this = Inl ub
         | Inr s \<Rightarrow>
             this_node s = this \<and>
             CollectInputOids hash_order this = Inr (result_vector s) \<and>
             (\<exists>ys. CollectInputOids hash_order' (this_node s) = Inr ys \<and>
                   set ys = set (result_vector s))"
proof (cases "CollectInputOids_run hash_order this")
  case (Inl ub)
  from CollectInputOids_run_Inl_order[OF this] Inl show ?thesis
    by (simp add: CollectInputOids_Inl_run)
next
  case (Inr s)
  from CollectInputOids_run_Inr[OF Inr] have t: "this_node s = this"
    by simp
  from Inr have r: "CollectInputOids hash_order this = Inr (result_vector s)"
    by (simp add: CollectInputOids_def)
  from CollectInputOids_run_Inr_order[OF Inr] obtain s' where
    "CollectInputOids_run hash_order' this = Inr s'"
    by blast
  then have r': "CollectInputOids hash_order' this = Inr (result_vector s')"
    by (simp add: CollectInputOids_def)
  from CollectInputOids_exposed[OF assms(1) r] CollectInputOids_exposed[OF assms(2) r']
  have "set (result_vector s') = set (result_vector s)"
    by simp
  with Inr t r r' show ?thesis by simp
qed

theorem CollectInputOids_pure_deterministic_witness:
  "unordered_set_traversal remdups \<and> unordered_set_traversal (\<lambda>xs. rev (remdups xs)) \<and>
   (\<exists>s. CollectInputOids_run remdups example_scan = Inr s \<and> this_node s = example_scan \<and>
        CollectInputOids remdups example_scan = Inr (result_vector s) \<and>
        (\<exists>ys. CollectInputOids (\<lambda>xs. rev (remdups xs)) (this_node s) = Inr ys \<and>
              set ys = set (result_vector s)))"
proof -
  have r: "unordered_set_traversal (\<lambda>xs. rev (remdups xs))"
    by (simp add: unordered_set_traversal_def)
  from CollectInputOids_run_returns[OF example_scan_well_formed] obtain s where
    s: "CollectInputOids_run remdups example_scan = Inr s"
    by blast
  from CollectInputOids_pure_deterministic[OF remdups_traversal r, of example_scan] s
    remdups_traversal r
  show ?thesis by auto
qed

text \<open>
  Claim C9. At a \<^verbatim>\<open>COLUMN_VALUE\<close> expression \<^verbatim>\<open>CollectOids\<close> appends the column
  identifier and returns, whatever the children of that expression are. So an identifier
  that occurs only below column-value expressions is not in the result of
  \<^verbatim>\<open>CollectInputOids\<close>.
\<close>

theorem CollectOids_stops_at_column_value:
  "CollectOids result (Some (AbstractExpression COLUMN_VALUE children (Some c))) =
     Inr (result @ [c]) \<and>
   (unordered_set_traversal hash_order \<and> CollectInputOids hash_order this = Inr xs \<and>
    d \<notin> node_exposed_oids this \<longrightarrow> d \<notin> set xs)"
  using CollectInputOids_exposed[of hash_order this xs] by simp

text \<open>
  Column 9 is referenced by the expression tree of \<open>nested_scan\<close>, below the column-value
  expression for column 7, and is not collected.
\<close>

theorem CollectOids_stops_at_column_value_witness:
  "CollectOids [] (Some (AbstractExpression COLUMN_VALUE [column_value 9] (Some 7))) = Inr [7] \<and>
   unordered_set_traversal remdups \<and> CollectInputOids remdups nested_scan = Inr [7] \<and>
   9 \<in> node_referenced_oids nested_scan \<and> 9 \<notin> node_exposed_oids nested_scan \<and>
   9 \<notin> set [7::nat]"
  using CollectOids_stops_at_column_value[of "[]" "[column_value 9]" 7 remdups nested_scan "[7]" 9]
    remdups_traversal nested_scan_result nested_scan_exposed nested_scan_referenced
  by simp

text \<open>
  Claim C10. The result of \<^verbatim>\<open>CollectInputOids\<close> does not depend on the stored
  \<^verbatim>\<open>column_oids_\<close>: replacing that list leaves the result as it is, and a node without a
  predicate and with an output schema without columns yields the empty vector although
  \<^verbatim>\<open>GetColumnIds()\<close> is not empty.
\<close>

theorem CollectInputOids_ignores_column_oids:
  "CollectInputOids hash_order (this\<lparr>column_oids := v\<rparr>) = CollectInputOids hash_order this \<and>
   (unordered_set_traversal hash_order \<and> GetScanPredicate this = None \<and>
    GetOutputSchema this = Some (OutputSchema []) \<and> GetColumnIds this \<noteq> [] \<longrightarrow>
    CollectInputOids hash_order this = Inr [])"
proof -
  have "CollectInputOids hash_order (this\<lparr>column_oids := v\<rparr>) = CollectInputOids hash_order this"
    by (simp add: CollectInputOids_def CollectInputOids_run_def GetScanPredicate_def
        GetOutputSchema_def Let_def split: sum.splits option.splits)
  moreover have
    "unordered_set_traversal hash_order \<and> GetScanPredicate this = None \<and>
     GetOutputSchema this = Some (OutputSchema []) \<and> GetColumnIds this \<noteq> [] \<longrightarrow>
     CollectInputOids hash_order this = Inr []"
    by (simp add: CollectInputOids_def CollectInputOids_run_def hash_order_Nil)
  ultimately show ?thesis by blast
qed

theorem CollectInputOids_ignores_column_oids_witness:
  "CollectInputOids remdups (empty_scan\<lparr>column_oids := [4, 4]\<rparr>) =
     CollectInputOids remdups empty_scan \<and>
   unordered_set_traversal remdups \<and> GetScanPredicate empty_scan = None \<and>
   GetOutputSchema empty_scan = Some (OutputSchema []) \<and>
   GetColumnIds empty_scan = [1, 2, 2, 3] \<and> GetColumnIds empty_scan \<noteq> [] \<and>
   CollectInputOids remdups empty_scan = Inr []"
  using CollectInputOids_ignores_column_oids
      [where hash_order = remdups and this = empty_scan and v = "[4, 4]"]
    remdups_traversal empty_scan_fields
  by simp


end
